theory Spec2Isabelle
  imports
    Main
    "HOL-Library.AList"
    "HOL-Library.Multiset"
    "HOL-Library.Char_ord"
    "HOL-Library.List_Lexorder"
    "HOL-Library.Product_Lexorder"
begin

section \<open>The statistics dashboard script\<close>

text \<open>
  The dashboard script reads one JSON snapshot of download statistics and derives from it
  the summary cards, the trends chart and the two categorical charts. This theory embeds the
  functions of the script as HOL functions. The repository holds two variants of the
  script; the one embedded is the variant with the six recent-window fields and the palette
  of sixteen colours. But for \<^verbatim>\<open>renderSummaryCards\<close> and the palette, the functions below
  read the same in both. Whatever the script takes from its host (string collation, the
  locale rendering of numbers and timestamps) is a parameter of the function that calls it.
\<close>

subsection \<open>Values read from the snapshot\<close>

text \<open>
  A scalar as \<^verbatim>\<open>JSON.parse\<close> yields it; \<open>JUndefined\<close> is what reading an absent
  field gives. A number of the snapshot is an integer, and it is a value of the host's
  number type, a double.
\<close>

datatype jsval = JUndefined | JNull | JBool bool | JNum int | JStr string

text \<open>The truth value of a scalar in a condition, under \<^verbatim>\<open>!\<close>, \<^verbatim>\<open>&&\<close> and \<^verbatim>\<open>||\<close>.\<close>

fun truthy :: "jsval \<Rightarrow> bool" where
  "truthy JUndefined = False"
| "truthy JNull = False"
| "truthy (JBool b) = b"
| "truthy (JNum n) = (n \<noteq> 0)"
| "truthy (JStr s) = (s \<noteq> [])"

text \<open>The decimal text of an integer, as string conversion and string templates give it.\<close>

definition digit_char :: "nat \<Rightarrow> char" where
  "digit_char d = char_of (48 + d)"

fun show_nat :: "nat \<Rightarrow> string" where
  "show_nat n = (if n < 10 then [digit_char n] else show_nat (n div 10) @ [digit_char (n mod 10)])"

declare show_nat.simps [simp del]

function decimal :: "int \<Rightarrow> string" where
  "decimal n = (if n < 10 then [digit_char (nat n)] else decimal (n div 10) @ [digit_char (nat (n mod 10))])"
  by pat_completeness auto
termination
  by (relation "measure nat") auto

declare decimal.simps [simp del]

subsection \<open>The numbers of the host\<close>

text \<open>
  The host computes with doubles. The numbers met here have integer values, or are
  infinite: an integer below \<open>2 ^ 53\<close> in absolute value is a double, a larger one is a
  double when it is a multiple of the spacing of the doubles around it.
\<close>

datatype number = Finite int | PosInfinity | NegInfinity

text \<open>The spacing of the doubles at a non-negative integer: 53 significant bits.\<close>

function double_ulp :: "int \<Rightarrow> int" where
  "double_ulp n = (if n < 2 ^ 53 then 1 else 2 * double_ulp (n div 2))"
  by pat_completeness auto
termination
  by (relation "measure nat") auto

declare double_ulp.simps [simp del]

text \<open>
  The double nearest to a non-negative integer; of two equally near, the one with the
  even significand.
\<close>

definition round_mag :: "int \<Rightarrow> int" where
  "round_mag n =
     (let q = double_ulp n; m = n div q; r = n mod q
      in if 2 * r < q then m * q
         else if q < 2 * r then (m + 1) * q
         else if even m then m * q else (m + 1) * q)"

text \<open>
  The double an exact integer result is rounded to; from \<open>2 ^ 1024\<close> on the result is
  infinite.
\<close>

definition round_double :: "int \<Rightarrow> number" where
  "round_double x =
     (let m = round_mag \<bar>x\<bar>
      in if 2 ^ 1024 \<le> m then (if x < 0 then NegInfinity else PosInfinity)
         else Finite (if x < 0 then - m else m))"

text \<open>
  The text of a positive integer double, as string conversion gives it: the digits of the
  multiple of a power of ten with the fewest significant digits that still reads back as
  the same double (the nearest one, if there are two), written out when they are at most
  21 digits, in exponent notation otherwise.
\<close>

definition candidate :: "int \<Rightarrow> int \<Rightarrow> int option" where
  "candidate v p =
     (let lo = (v div p) * p; hi = lo + p;
          lo_ok = (round_double lo = Finite v); hi_ok = (round_double hi = Finite v)
      in if lo_ok \<and> (\<not> hi_ok \<or> v - lo \<le> hi - v) then Some lo
         else if hi_ok then Some hi else None)"

fun shortest :: "int \<Rightarrow> nat \<Rightarrow> int" where
  "shortest v 0 = v"
| "shortest v (Suc e) = (case candidate v (10 ^ Suc e) of Some c \<Rightarrow> c | None \<Rightarrow> shortest v e)"

definition positive_text :: "int \<Rightarrow> string" where
  "positive_text v =
     (let ds = decimal (shortest v (length (decimal v) - 1));
          s = rev (dropWhile (\<lambda>c. c = CHR ''0'') (rev ds))
      in if length ds \<le> 21 then ds
         else if length s = 1 then s @ ''e+'' @ decimal (int (length ds) - 1)
         else hd s # CHR ''.'' # tl s @ ''e+'' @ decimal (int (length ds) - 1))"

definition number_to_string :: "int \<Rightarrow> string" where
  "number_to_string x =
     (case round_double x of
        PosInfinity \<Rightarrow> ''Infinity''
      | NegInfinity \<Rightarrow> ''-Infinity''
      | Finite v \<Rightarrow>
          if v < 0 then CHR ''-'' # positive_text (- v)
          else if v = 0 then ''0'' else positive_text v)"

text \<open>The property key a truthy category turns into when it indexes an object.\<close>

fun to_key :: "jsval \<Rightarrow> string" where
  "to_key (JStr s) = s"
| "to_key (JNum n) = number_to_string n"
| "to_key (JBool b) = (if b then ''true'' else ''false'')"
| "to_key JNull = ''null''"
| "to_key JUndefined = ''undefined''"

text \<open>\<^verbatim>\<open>v || 0\<close> for a count that is a number or absent.\<close>

definition or_zero :: "int option \<Rightarrow> int" where
  "or_zero v = (case v of None \<Rightarrow> 0 | Some n \<Rightarrow> (if n = 0 then 0 else n))"

text \<open>
  Every facet of a package is wrapped in an envelope \<^verbatim>\<open>{ "data": ... }\<close>. \<open>None\<close> is
  a package without the envelope, \<open>Some None\<close> an envelope without \<^verbatim>\<open>data\<close> (or with
  \<^verbatim>\<open>data\<close> null). \<open>facet_data\<close> is \<^verbatim>\<open>pkgData.facet?.data\<close>.
\<close>

type_synonym 'a facet = "'a option option"

definition facet_data :: "'a facet \<Rightarrow> 'a option" where
  "facet_data f = (case f of None \<Rightarrow> None | Some e \<Rightarrow> e)"

text \<open>\<^verbatim>\<open>pkgData.facet?.data || []\<close>; an array, even an empty one, is truthy.\<close>

definition data_or_empty :: "'a list facet \<Rightarrow> 'a list" where
  "data_or_empty f = (case facet_data f of None \<Rightarrow> [] | Some xs \<Rightarrow> xs)"

record recent_data =
  last_day :: "int option"
  last_week :: "int option"
  last_month :: "int option"
  last_day_without_mirrors :: "int option"
  last_week_without_mirrors :: "int option"
  last_month_without_mirrors :: "int option"

record daily_point =
  date :: string
  downloads :: "int option"
  category :: jsval

record category_count =
  item_category :: jsval
  item_downloads :: "int option"

record package =
  recent :: "recent_data facet"
  overall :: "daily_point list facet"
  python_versions :: "category_count list facet"
  system :: "category_count list facet"

text \<open>
  The \<^verbatim>\<open>packages\<close> object is given by its enumeration \<^verbatim>\<open>Object.entries(packages)\<close>:
  the pairs of a package name and its statistics, in the order the script visits them.
  The names of an object are distinct.
\<close>

type_synonym packages = "(string \<times> package) list"

record snapshot =
  last_updated :: string
  packages :: packages

subsection \<open>formatNumber\<close>

text \<open>
  \<^verbatim>\<open>if (!num) return '0'; return num.toLocaleString();\<close>
  The locale rendering is the host's, the parameter \<open>toLocaleString\<close>.
\<close>

definition formatNumber :: "(jsval \<Rightarrow> string) \<Rightarrow> jsval \<Rightarrow> string" where
  "formatNumber toLocaleString num = (if \<not> truthy num then ''0'' else toLocaleString num)"

subsection \<open>renderSummaryCards\<close>

text \<open>The six constants the loop body computes for one package.\<close>

record recent_window =
  lastDay :: int
  lastWeek :: int
  lastMonth :: int
  lastDayWithout :: int
  lastWeekWithout :: int
  lastMonthWithout :: int

text \<open>\<^verbatim>\<open>const recent = pkgData.recent?.data || {}\<close>: the empty object has no field.\<close>

definition recent_or_empty :: "package \<Rightarrow> recent_data" where
  "recent_or_empty pkgData =
     (case facet_data (recent pkgData) of
        None \<Rightarrow> \<lparr>last_day = None, last_week = None, last_month = None,
                 last_day_without_mirrors = None, last_week_without_mirrors = None,
                 last_month_without_mirrors = None\<rparr>
      | Some r \<Rightarrow> r)"

definition recentWindow :: "package \<Rightarrow> recent_window" where
  "recentWindow pkgData =
     (let r = recent_or_empty pkgData in
      \<lparr>lastDay = or_zero (last_day r),
       lastWeek = or_zero (last_week r),
       lastMonth = or_zero (last_month r),
       lastDayWithout = or_zero (last_day_without_mirrors r),
       lastWeekWithout = or_zero (last_week_without_mirrors r),
       lastMonthWithout = or_zero (last_month_without_mirrors r)\<rparr>)"

text \<open>
  One card: the package name and, for each period, the formatted total and the formatted
  organic count.
\<close>

record package_card =
  card_name :: string
  card_day :: "string \<times> string"
  card_week :: "string \<times> string"
  card_month :: "string \<times> string"

definition package_card_of :: "(jsval \<Rightarrow> string) \<Rightarrow> string \<Rightarrow> package \<Rightarrow> package_card" where
  "package_card_of tls pkgName pkgData =
     (let w = recentWindow pkgData in
      \<lparr>card_name = pkgName,
       card_day = (formatNumber tls (JNum (lastDay w)), formatNumber tls (JNum (lastDayWithout w))),
       card_week = (formatNumber tls (JNum (lastWeek w)), formatNumber tls (JNum (lastWeekWithout w))),
       card_month = (formatNumber tls (JNum (lastMonth w)), formatNumber tls (JNum (lastMonthWithout w)))\<rparr>)"

definition renderSummaryCards :: "(jsval \<Rightarrow> string) \<Rightarrow> packages \<Rightarrow> package_card list" where
  "renderSummaryCards tls pkgs = map (\<lambda>(pkgName, pkgData). package_card_of tls pkgName pkgData) pkgs"

subsection \<open>Array.prototype.sort\<close>

text \<open>
  The host's sort is stable and takes a comparison function: a result below zero puts the
  first argument first, a result above zero the second. For a consistent comparison the
  sorted array is determined; it is computed here by insertion. (For an inconsistent one
  the host may return any order, of which this is one.)
\<close>

fun insert_by :: "('a \<Rightarrow> 'a \<Rightarrow> int) \<Rightarrow> 'a \<Rightarrow> 'a list \<Rightarrow> 'a list" where
  "insert_by cmp a [] = [a]"
| "insert_by cmp a (b # bs) = (if cmp a b \<le> 0 then a # b # bs else b # insert_by cmp a bs)"

definition array_sort :: "('a \<Rightarrow> 'a \<Rightarrow> int) \<Rightarrow> 'a list \<Rightarrow> 'a list" where
  "array_sort cmp xs = foldr (insert_by cmp) xs []"

subsection \<open>renderTrendsChart\<close>

definition COLORS :: "string list" where
  "COLORS = [''#9B0002'', ''#C50003'', ''#7A0001'', ''#E60004'',
             ''#B85C00'', ''#D47300'', ''#8B4500'', ''#FF8C00'',
             ''#0A6E0A'', ''#0D8F0D'', ''#085808'', ''#10B010'',
             ''#666666'', ''#808080'', ''#4D4D4D'', ''#999999'']"

text \<open>The filter of the series: \<^verbatim>\<open>!d.category || d.category === 'without_mirrors'\<close>.\<close>

definition organic :: "daily_point \<Rightarrow> bool" where
  "organic d = (\<not> truthy (category d) \<or> category d = JStr ''without_mirrors'')"

text \<open>A chart point \<^verbatim>\<open>{x: d.date, y: d.downloads || 0}\<close>, as the pair \<open>(x, y)\<close>.\<close>

definition to_point :: "daily_point \<Rightarrow> string \<times> int" where
  "to_point d = (date d, or_zero (downloads d))"

text \<open>
  \<^verbatim>\<open>overall.filter(...).map(...).sort((a, b) => a.x.localeCompare(b.x))\<close>;
  \<open>localeCompare\<close> is the host's collation.
\<close>

definition dataPoints :: "(string \<Rightarrow> string \<Rightarrow> int) \<Rightarrow> daily_point list \<Rightarrow> (string \<times> int) list" where
  "dataPoints localeCompare ovr =
     array_sort (\<lambda>a b. localeCompare (fst a) (fst b)) (map to_point (filter organic ovr))"

text \<open>A \<^verbatim>\<open>Set\<close> keeps its members once each, in the order they were first added.\<close>

definition Set_add :: "'a \<Rightarrow> 'a list \<Rightarrow> 'a list" where
  "Set_add v s = (if v \<in> set s then s else s @ [v])"

text \<open>The dates the map callback adds to \<^verbatim>\<open>allDates\<close> while it builds the points.\<close>

definition add_dates :: "daily_point list \<Rightarrow> string list \<Rightarrow> string list" where
  "add_dates ovr allDates = fold Set_add (map date (filter organic ovr)) allDates"

record dataset =
  label :: string
  data :: "(string \<times> int) list"
  borderColor :: string
  backgroundColor :: string

text \<open>
  One round of the \<^verbatim>\<open>forEach\<close> over the entries, on the state \<open>(datasets, allDates)\<close>.
  The fields of a dataset that are the same constant for every package are left out.
\<close>

definition trends_step ::
  "(string \<Rightarrow> string \<Rightarrow> int) \<Rightarrow> nat \<times> string \<times> package \<Rightarrow>
   dataset list \<times> string list \<Rightarrow> dataset list \<times> string list" where
  "trends_step localeCompare e st =
     (case e of (index, pkgName, pkgData) \<Rightarrow>
      case st of (datasets, allDates) \<Rightarrow>
        let ovr = data_or_empty (overall pkgData);
            pts = dataPoints localeCompare ovr;
            allDates' = add_dates ovr allDates
        in if length pts > 0
           then (datasets @ [\<lparr>label = pkgName, data = pts,
                               borderColor = COLORS ! (index mod length COLORS),
                               backgroundColor = COLORS ! (index mod length COLORS) @ ''20''\<rparr>],
                 allDates')
           else (datasets, allDates'))"

definition renderTrendsChart ::
  "(string \<Rightarrow> string \<Rightarrow> int) \<Rightarrow> packages \<Rightarrow> dataset list \<times> string list" where
  "renderTrendsChart localeCompare pkgs =
     fold (trends_step localeCompare) (enumerate 0 pkgs) ([], [])"

subsection \<open>The totals object of the categorical charts\<close>

text \<open>
  \<^verbatim>\<open>const versionTotals = {}\<close> is a plain object used as a dictionary. Reading a key it
  does not own falls through to the properties every plain object inherits; these are
  built-in functions (and, for \<^verbatim>\<open>__proto__\<close>, the prototype object), all truthy.
\<close>

definition object_prototype_names :: "string list" where
  "object_prototype_names =
     [''constructor'', ''__proto__'', ''hasOwnProperty'', ''isPrototypeOf'',
      ''propertyIsEnumerable'', ''toLocaleString'', ''toString'', ''valueOf'',
      ''__defineGetter__'', ''__defineSetter__'', ''__lookupGetter__'', ''__lookupSetter__'']"

text \<open>
  A value stored in the totals object: a number (\<open>Count c\<close> is the finite number \<open>c\<close>),
  or the string that results once a built-in was added to a number (the text of the
  built-in followed by digits; how the text reads is the host's business, it is never
  empty and never a numeral).
\<close>

datatype total = Number number | Junk

abbreviation Count :: "int \<Rightarrow> total" where
  "Count c \<equiv> Number (Finite c)"

text \<open>The own properties of the object, in the order they were created.\<close>

type_synonym totals = "(string \<times> total) list"

datatype lookup = NoProp | OwnProp total | InheritedProp

definition get_prop :: "totals \<Rightarrow> string \<Rightarrow> lookup" where
  "get_prop obj k =
     (case map_of obj k of
        Some v \<Rightarrow> OwnProp v
      | None \<Rightarrow> if k \<in> set object_prototype_names then InheritedProp else NoProp)"

text \<open>
  \<^verbatim>\<open>(p || 0) + n\<close>: a number is added to, and the sum is rounded to a double; anything
  else is concatenated with. The number added is a double and finite, so an infinite total
  stays what it is.
\<close>

fun or_zero_plus :: "lookup \<Rightarrow> int \<Rightarrow> total" where
  "or_zero_plus NoProp n = Number (round_double (0 + n))"
| "or_zero_plus (OwnProp (Count c)) n = Number (round_double ((if c = 0 then 0 else c) + n))"
| "or_zero_plus (OwnProp (Number PosInfinity)) n = Number PosInfinity"
| "or_zero_plus (OwnProp (Number NegInfinity)) n = Number NegInfinity"
| "or_zero_plus (OwnProp Junk) n = Junk"
| "or_zero_plus InheritedProp n = Junk"

text \<open>
  \<^verbatim>\<open>obj[k] = v\<close>: an own property is overwritten in place, a new one is appended;
  assigning a string or a number to the inherited accessor \<^verbatim>\<open>__proto__\<close> does nothing.
\<close>

definition set_prop :: "totals \<Rightarrow> string \<Rightarrow> total \<Rightarrow> totals" where
  "set_prop obj k v =
     (if map_of obj k = None \<and> k = ''__proto__'' then obj else AList.update k v obj)"

text \<open>The condition of the inner loop: \<^verbatim>\<open>item.category && item.category !== 'null'\<close>.\<close>

definition counted :: "category_count \<Rightarrow> bool" where
  "counted item = (truthy (item_category item) \<and> item_category item \<noteq> JStr ''null'')"

definition add_item :: "category_count \<Rightarrow> totals \<Rightarrow> totals" where
  "add_item item obj =
     (if counted item
      then let k = to_key (item_category item)
           in set_prop obj k (or_zero_plus (get_prop obj k) (or_zero (item_downloads item)))
      else obj)"

text \<open>
  \<^verbatim>\<open>Object.values(packages).forEach(pkgData => (pkgData.facet?.data || []).forEach(...))\<close>,
  starting from the empty object.
\<close>

definition aggregate :: "(package \<Rightarrow> category_count list facet) \<Rightarrow> packages \<Rightarrow> totals" where
  "aggregate facet pkgs =
     fold (\<lambda>pkgData obj. fold add_item (data_or_empty (facet pkgData)) obj) (map snd pkgs) []"

text \<open>
  \<^verbatim>\<open>Object.entries\<close> lists the keys that are array indices first, in ascending numeric
  order, then the other keys in creation order.
\<close>

definition is_digit :: "char \<Rightarrow> bool" where
  "is_digit c = (c \<in> set ''0123456789'')"

definition index_value :: "string \<Rightarrow> int" where
  "index_value s = fold (\<lambda>c n. 10 * n + (of_char c - 48)) s 0"

definition is_array_index :: "string \<Rightarrow> bool" where
  "is_array_index s =
     (s \<noteq> [] \<and> list_all is_digit s \<and> (hd s \<noteq> CHR ''0'' \<or> length s = 1)
      \<and> index_value s < 2 ^ 32 - 1)"

definition Object_entries :: "(string \<times> 'v) list \<Rightarrow> (string \<times> 'v) list" where
  "Object_entries obj =
     sort_key (\<lambda>e. index_value (fst e)) (filter (\<lambda>e. is_array_index (fst e)) obj)
     @ filter (\<lambda>e. \<not> is_array_index (fst e)) obj"

text \<open>
  The comparison \<^verbatim>\<open>(a, b) => b[1] - a[1]\<close>. The difference of two finite numbers is
  rounded to a double; the difference of two equal infinities, and a difference with a
  string that is not a numeral, is NaN (\<open>None\<close>). The sort reads the sign of the result,
  and NaN as zero.
\<close>

fun minus_total :: "total \<Rightarrow> total \<Rightarrow> number option" where
  "minus_total (Count b) (Count a) = Some (round_double (b - a))"
| "minus_total (Count b) (Number PosInfinity) = Some NegInfinity"
| "minus_total (Count b) (Number NegInfinity) = Some PosInfinity"
| "minus_total (Number PosInfinity) (Number PosInfinity) = None"
| "minus_total (Number PosInfinity) (Number _) = Some PosInfinity"
| "minus_total (Number NegInfinity) (Number NegInfinity) = None"
| "minus_total (Number NegInfinity) (Number _) = Some NegInfinity"
| "minus_total Junk _ = None"
| "minus_total _ Junk = None"

fun sign_read :: "number option \<Rightarrow> int" where
  "sign_read None = 0"
| "sign_read (Some (Finite v)) = v"
| "sign_read (Some PosInfinity) = 1"
| "sign_read (Some NegInfinity) = - 1"

definition by_total :: "string \<times> total \<Rightarrow> string \<times> total \<Rightarrow> int" where
  "by_total a b = sign_read (minus_total (snd b) (snd a))"

subsection \<open>renderPythonVersionsChart and renderSystemsChart\<close>

definition versionTotals :: "packages \<Rightarrow> totals" where
  "versionTotals pkgs = aggregate python_versions pkgs"

definition sortedVersions :: "packages \<Rightarrow> (string \<times> total) list" where
  "sortedVersions pkgs = take 10 (array_sort by_total (Object_entries (versionTotals pkgs)))"

definition systemTotals :: "packages \<Rightarrow> totals" where
  "systemTotals pkgs = aggregate system pkgs"

definition sortedSystems :: "packages \<Rightarrow> (string \<times> total) list" where
  "sortedSystems pkgs = array_sort by_total (Object_entries (systemTotals pkgs))"

subsection \<open>loadStats\<close>

text \<open>
  A document that parses need not have the shape the script reads: where a statement
  meets null, or a value without the field or the method it uses, it throws a TypeError.
  The first call, \<^verbatim>\<open>updateLastUpdated(statsData.last_updated)\<close>, throws when the document
  itself is null, before anything is written. Each render function touches the page in
  its last statement only, so one that throws leaves the page as it was. A document of the
  wrong shape is not a value of the types above; it is given by what the calls before the
  failing one read of it, as a snapshot, and by the first call that throws on it, with the
  message of the error. A document of the right shape has no such call.
\<close>

datatype render_call =
  CallUpdateLastUpdated | CallSummaryCards | CallTrendsChart | CallPythonVersionsChart
  | CallSystemsChart

record document =
  content :: snapshot
  shape_error :: "(render_call \<times> string) option"

text \<open>
  What \<^verbatim>\<open>fetch\<close> and \<^verbatim>\<open>response.json()\<close> can come back with: the request is rejected
  with a message, or there is a response with its \<^verbatim>\<open>ok\<close> flag and status, whose body
  either fails to parse (with the parser's message) or parses to a document.
\<close>

datatype body = Unparseable string | Parsed document

datatype fetch_result = Rejected string | Response bool nat body

text \<open>What the page shows: the element of the cards, the timestamp line, the three charts.\<close>

datatype cards = NoCards | Cards "package_card list" | ErrorParagraph string

record page =
  lastUpdated :: "string option"
  summaryCards :: cards
  trendsChart :: "dataset list option"
  pythonVersionsChart :: "(string \<times> total) list option"
  systemsChart :: "(string \<times> total) list option"

text \<open>The \<^verbatim>\<open>catch\<close> block.\<close>

definition show_error :: "string \<Rightarrow> page \<Rightarrow> page" where
  "show_error message pg =
     pg\<lparr>summaryCards := ErrorParagraph
          (''Error loading statistics: '' @ message
           @ ''. Please check the browser console for details.'')\<rparr>"

text \<open>
  What one call does to the page when it does not throw. A chart is given by the data it
  is created with.
\<close>

fun render ::
  "(string \<Rightarrow> string \<Rightarrow> int) \<Rightarrow> (jsval \<Rightarrow> string) \<Rightarrow> (string \<Rightarrow> string) \<Rightarrow>
   snapshot \<Rightarrow> render_call \<Rightarrow> page \<Rightarrow> page" where
  "render localeCompare tls formatTimestamp statsData CallUpdateLastUpdated pg =
     pg\<lparr>lastUpdated := Some (''Last updated: '' @ formatTimestamp (last_updated statsData))\<rparr>"
| "render localeCompare tls formatTimestamp statsData CallSummaryCards pg =
     pg\<lparr>summaryCards := Cards (renderSummaryCards tls (packages statsData))\<rparr>"
| "render localeCompare tls formatTimestamp statsData CallTrendsChart pg =
     pg\<lparr>trendsChart := Some (fst (renderTrendsChart localeCompare (packages statsData)))\<rparr>"
| "render localeCompare tls formatTimestamp statsData CallPythonVersionsChart pg =
     pg\<lparr>pythonVersionsChart := Some (sortedVersions (packages statsData))\<rparr>"
| "render localeCompare tls formatTimestamp statsData CallSystemsChart pg =
     pg\<lparr>systemsChart := Some (sortedSystems (packages statsData))\<rparr>"

text \<open>
  Calls in the order of the \<^verbatim>\<open>try\<close> block, up to the first that throws: the page they
  leave, and the message of the error, if any.
\<close>

fun render_calls ::
  "(string \<Rightarrow> string \<Rightarrow> int) \<Rightarrow> (jsval \<Rightarrow> string) \<Rightarrow> (string \<Rightarrow> string) \<Rightarrow>
   document \<Rightarrow> render_call list \<Rightarrow> page \<Rightarrow> page \<times> string option" where
  "render_calls localeCompare tls formatTimestamp doc [] pg = (pg, None)"
| "render_calls localeCompare tls formatTimestamp doc (c # cs) pg =
     (case shape_error doc of
        Some (failing, message) \<Rightarrow>
          if failing = c then (pg, Some message)
          else render_calls localeCompare tls formatTimestamp doc cs
                 (render localeCompare tls formatTimestamp (content doc) c pg)
      | None \<Rightarrow>
          render_calls localeCompare tls formatTimestamp doc cs
            (render localeCompare tls formatTimestamp (content doc) c pg))"

text \<open>The statements of the \<^verbatim>\<open>try\<close> block after the document was parsed.\<close>

definition render_all ::
  "(string \<Rightarrow> string \<Rightarrow> int) \<Rightarrow> (jsval \<Rightarrow> string) \<Rightarrow> (string \<Rightarrow> string) \<Rightarrow>
   document \<Rightarrow> page \<Rightarrow> page \<times> string option" where
  "render_all localeCompare tls formatTimestamp doc pg =
     render_calls localeCompare tls formatTimestamp doc
       [CallUpdateLastUpdated, CallSummaryCards, CallTrendsChart, CallPythonVersionsChart,
        CallSystemsChart] pg"

definition loadStats ::
  "(string \<Rightarrow> string \<Rightarrow> int) \<Rightarrow> (jsval \<Rightarrow> string) \<Rightarrow> (string \<Rightarrow> string) \<Rightarrow>
   fetch_result \<Rightarrow> page \<Rightarrow> page" where
  "loadStats localeCompare tls formatTimestamp response pg =
     (case response of
        Rejected message \<Rightarrow> show_error message pg
      | Response ok status b \<Rightarrow>
          if \<not> ok then show_error (''HTTP error! status: '' @ show_nat status) pg
          else (case b of
                  Unparseable message \<Rightarrow> show_error message pg
                | Parsed doc \<Rightarrow>
                    (case render_all localeCompare tls formatTimestamp doc pg of
                       (pg', None) \<Rightarrow> pg'
                     | (pg', Some message) \<Rightarrow> show_error message pg')))"

subsection \<open>Notions the properties are stated with\<close>

text \<open>
  The host's collation orders the strings of a list as the comparison of their code units
  does. It holds of dates in the zero-padded form \<^verbatim>\<open>YYYY-MM-DD\<close>.
\<close>

definition collates_by_code_unit :: "(string \<Rightarrow> string \<Rightarrow> int) \<Rightarrow> string list \<Rightarrow> bool" where
  "collates_by_code_unit localeCompare ds =
     (\<forall>a\<in>set ds. \<forall>b\<in>set ds.
        (localeCompare a b < 0) = (a < b) \<and> (localeCompare a b = 0) = (a = b))"

text \<open>A comparison of two strings by their code units, with the sign as result.\<close>

definition code_unit_compare :: "string \<Rightarrow> string \<Rightarrow> int" where
  "code_unit_compare a b = (if a < b then - 1 else if a = b then 0 else 1)"

text \<open>A host that renders a number by its plain digits.\<close>

definition plain_digits :: "jsval \<Rightarrow> string" where
  "plain_digits v = to_key v"

text \<open>The name of a package with the series computed from its \<^verbatim>\<open>overall\<close> facet.\<close>

definition series_of ::
  "(string \<Rightarrow> string \<Rightarrow> int) \<Rightarrow> string \<times> package \<Rightarrow> string \<times> (string \<times> int) list" where
  "series_of localeCompare e = (fst e, dataPoints localeCompare (data_or_empty (overall (snd e))))"

text \<open>The entries of one facet over all packages, in the order the loops visit them.\<close>

definition all_items :: "(package \<Rightarrow> category_count list facet) \<Rightarrow> packages \<Rightarrow> category_count list" where
  "all_items facet pkgs = concat (map (\<lambda>e. data_or_empty (facet (snd e))) pkgs)"

definition item_key :: "category_count \<Rightarrow> string" where
  "item_key item = to_key (item_category item)"

text \<open>No counted entry has a category that names an inherited property of a plain object.\<close>

definition safe_keys :: "category_count list \<Rightarrow> bool" where
  "safe_keys items = (\<forall>item\<in>set items. counted item \<longrightarrow> item_key item \<notin> set object_prototype_names)"

text \<open>The sum of the downloads (zero when absent) of the counted entries with key \<open>k\<close>.\<close>

definition key_sum :: "string \<Rightarrow> category_count list \<Rightarrow> int" where
  "key_sum k items =
     sum_list (map (\<lambda>item. or_zero (item_downloads item))
                   (filter (\<lambda>item. counted item \<and> item_key item = k) items))"

text \<open>
  The downloads of the counted entries add up, in absolute value, to less than \<open>2 ^ 53\<close>:
  every sum of some of them is an integer the host adds exactly.
\<close>

definition abs_sum :: "category_count list \<Rightarrow> int" where
  "abs_sum items =
     sum_list (map (\<lambda>item. \<bar>or_zero (item_downloads item)\<bar>) (filter counted items))"

definition exact_range :: "category_count list \<Rightarrow> bool" where
  "exact_range items = (abs_sum items < 2 ^ 53)"

text \<open>The number an own property holds, zero when there is none.\<close>

definition own_count :: "totals \<Rightarrow> string \<Rightarrow> int" where
  "own_count obj k = (case map_of obj k of Some (Count c) \<Rightarrow> c | _ \<Rightarrow> 0)"

text \<open>
  Two totals in strictly descending, and in descending, order; both are numbers, and an
  infinite one is above, or below, every finite one.
\<close>

fun total_gt :: "total \<Rightarrow> total \<Rightarrow> bool" where
  "total_gt (Count a) (Count b) = (a > b)"
| "total_gt (Number PosInfinity) (Count b) = True"
| "total_gt (Number PosInfinity) (Number NegInfinity) = True"
| "total_gt (Count a) (Number NegInfinity) = True"
| "total_gt _ _ = False"

fun total_ge :: "total \<Rightarrow> total \<Rightarrow> bool" where
  "total_ge (Count a) (Count b) = (a \<ge> b)"
| "total_ge (Number PosInfinity) (Number n) = True"
| "total_ge (Count a) (Number NegInfinity) = True"
| "total_ge (Number NegInfinity) (Number NegInfinity) = True"
| "total_ge _ _ = False"

text \<open>The key under which the sort of the ranked lists is an ascending one.\<close>

fun rank_key :: "string \<times> total \<Rightarrow> int \<times> int" where
  "rank_key (k, Count c) = (0, - c)"
| "rank_key (k, Number PosInfinity) = (- 1, 0)"
| "rank_key (k, Number NegInfinity) = (1, 0)"
| "rank_key (k, Junk) = (0, 0)"

definition strictly_descending :: "(string \<times> total) list \<Rightarrow> bool" where
  "strictly_descending es = sorted_wrt (\<lambda>a b. total_gt (snd a) (snd b)) es"

definition descending :: "(string \<times> total) list \<Rightarrow> bool" where
  "descending es = sorted_wrt (\<lambda>a b. total_ge (snd a) (snd b)) es"

text \<open>
  The two conditions as the specification words them: a point is kept when its category
  is absent or \<^verbatim>\<open>"without_mirrors"\<close>, an entry is excluded when its category is absent or
  \<^verbatim>\<open>"null"\<close>. They are compared with \<open>organic\<close> and \<open>counted\<close>, which are the tests of
  the script.
\<close>

definition spec_organic :: "daily_point \<Rightarrow> bool" where
  "spec_organic d = (category d = JUndefined \<or> category d = JStr ''without_mirrors'')"

definition spec_excluded :: "category_count \<Rightarrow> bool" where
  "spec_excluded item = (item_category item = JUndefined \<or> item_category item = JStr ''null'')"

section \<open>Properties of the script\<close>

subsection \<open>The numbers of the host\<close>

text \<open>
  An integer below \<open>2 ^ 53\<close> in absolute value is rounded to itself, and rounding keeps
  the sign of every integer.
\<close>

lemma double_ulp_small: "n < 2 ^ 53 \<Longrightarrow> double_ulp n = 1"
  by (subst double_ulp.simps) simp

lemma double_ulp_pos: "0 < double_ulp n"
proof (induction n rule: double_ulp.induct)
  case (1 n)
  then show ?case
    by (subst double_ulp.simps) auto
qed

lemma double_ulp_le: "1 \<le> n \<Longrightarrow> double_ulp n \<le> n"
proof (induction n rule: double_ulp.induct)
  case (1 n)
  show ?case
  proof (cases "n < 2 ^ 53")
    case True
    with "1.prems" show ?thesis
      by (simp add: double_ulp_small)
  next
    case False
    then have "1 \<le> n div 2"
      by simp
    with False "1.IH" have "double_ulp (n div 2) \<le> n div 2"
      by simp
    then have "2 * double_ulp (n div 2) \<le> n"
      by simp
    with False show ?thesis
      by (subst double_ulp.simps) simp
  qed
qed

lemma round_mag_small: "0 \<le> n \<Longrightarrow> n < 2 ^ 53 \<Longrightarrow> round_mag n = n"
  by (simp add: round_mag_def double_ulp_small)

lemma round_mag_pos:
  assumes "0 < n"
  shows "0 < round_mag n"
proof -
  let ?q = "double_ulp n"
  have q: "0 < ?q"
    by (rule double_ulp_pos)
  have "?q \<le> n"
    using assms by (simp add: double_ulp_le)
  with q have m: "0 < n div ?q"
    by (simp add: pos_imp_zdiv_pos_iff)
  with q have a: "0 < (n div ?q) * ?q"
    by simp
  from m q have b: "0 < (n div ?q + 1) * ?q"
    by simp
  from a b show ?thesis
    by (simp add: round_mag_def Let_def)
qed

lemma round_double_exact: "\<bar>x\<bar> < 2 ^ 53 \<Longrightarrow> round_double x = Finite x"
  by (simp add: round_double_def round_mag_small Let_def)

lemma sign_round_double: "(sign_read (Some (round_double x)) \<le> 0) = (x \<le> 0)"
proof (cases "x \<le> 0")
  case True
  show ?thesis
  proof (cases "x = 0")
    case True
    then show ?thesis
      by (simp add: round_double_exact)
  next
    case False
    with True have "0 < round_mag \<bar>x\<bar>"
      by (simp add: round_mag_pos)
    with True False show ?thesis
      by (simp add: round_double_def Let_def)
  qed
next
  case False
  then have "0 < round_mag \<bar>x\<bar>"
    by (simp add: round_mag_pos)
  with False show ?thesis
    by (simp add: round_double_def Let_def)
qed

text \<open>
  Keys of numbers: plain digits below \<open>10 ^ 21\<close>, shortened to the digits that
  determine the double, and exponent notation from there on.
\<close>

lemma number_keys:
  "to_key (JNum 100) = ''100'' \<and> to_key (JNum (10 ^ 21)) = ''1e+21''
   \<and> to_key (JNum (2 ^ 60)) = ''1152921504606847000''"
  by code_simp

subsection \<open>The sort\<close>

text \<open>
  The sort returns a permutation of its argument, whatever the comparison. When the
  comparison orders the elements as a key does, the sort is the stable sort by that key.
\<close>

lemma mset_insert_by: "mset (insert_by cmp a bs) = add_mset a (mset bs)"
  by (induction bs) auto

lemma mset_array_sort: "mset (array_sort cmp xs) = mset xs"
  by (induction xs) (auto simp: array_sort_def mset_insert_by)

lemma set_array_sort: "set (array_sort cmp xs) = set xs"
  by (metis mset_array_sort set_mset_mset)

lemma length_array_sort: "length (array_sort cmp xs) = length xs"
  by (metis mset_array_sort size_mset)

lemma insert_by_insort_key:
  "\<forall>b\<in>set bs. (cmp a b \<le> 0) = (f a \<le> f b) \<Longrightarrow> insert_by cmp a bs = insort_key f a bs"
  by (induction bs) auto

lemma array_sort_sort_key:
  assumes "\<forall>a\<in>set xs. \<forall>b\<in>set xs. (cmp a b \<le> 0) = (f a \<le> f b)"
  shows "array_sort cmp xs = sort_key f xs"
  using assms
proof (induction xs)
  case Nil
  show ?case by (simp add: array_sort_def)
next
  case (Cons x xs)
  have tail: "array_sort cmp xs = sort_key f xs"
    using Cons by simp
  have "\<forall>b\<in>set (sort_key f xs). (cmp x b \<le> 0) = (f x \<le> f b)"
    using Cons.prems by simp
  then have "insert_by cmp x (sort_key f xs) = insort_key f x (sort_key f xs)"
    by (rule insert_by_insort_key)
  with tail show ?case
    by (simp add: array_sort_def)
qed

subsection \<open>The series of one package\<close>

lemma dataPoints_sort_key:
  assumes "collates_by_code_unit lc (map date (filter organic ovr))"
  shows "dataPoints lc ovr = sort_key fst (map to_point (filter organic ovr))"
proof -
  have "\<forall>a\<in>set (map to_point (filter organic ovr)). \<forall>b\<in>set (map to_point (filter organic ovr)).
          (lc (fst a) (fst b) \<le> 0) = (fst a \<le> fst b)"
    using assms by (auto simp: collates_by_code_unit_def to_point_def order.order_iff_strict)
  then show ?thesis
    unfolding dataPoints_def by (rule array_sort_sort_key)
qed

lemma dataPoints_Nil_iff: "dataPoints lc ovr = [] \<longleftrightarrow> filter organic ovr = []"
proof -
  have "length (dataPoints lc ovr) = length (filter organic ovr)"
    by (simp add: dataPoints_def length_array_sort)
  then show ?thesis
    by (metis length_0_conv)
qed

lemma set_dataPoints: "set (dataPoints lc ovr) = to_point ` {d \<in> set ovr. organic d}"
  by (simp add: dataPoints_def set_array_sort)

lemma code_unit_compare_collates: "collates_by_code_unit code_unit_compare ds"
  by (auto simp: collates_by_code_unit_def code_unit_compare_def)

text \<open>
  C1, as amended. The series computed from the \<^verbatim>\<open>overall\<close> facet of a package holds
  exactly the points that pass the test of the script, each as often as it occurs and as
  the pair of its date and its downloads (zero when absent): nothing is merged and nothing
  is summed. The test keeps a point when its category is falsy (absent, null, false, zero or
  the empty string) or equal to \<^verbatim>\<open>"without_mirrors"\<close>. Where the host's collation orders the
  dates of these points as the comparison of their code units does, the series is sorted
  in non-decreasing order of date, and the points of one date keep the order they had in
  the facet.
\<close>

theorem series_sorted_stable:
  assumes "collates_by_code_unit localeCompare (map date (filter organic ovr))"
  shows "mset (dataPoints localeCompare ovr) = mset (map to_point (filter organic ovr))
       \<and> sorted (map fst (dataPoints localeCompare ovr))
       \<and> (\<forall>d. filter (\<lambda>p. fst p = d) (dataPoints localeCompare ovr)
              = filter (\<lambda>p. fst p = d) (map to_point (filter organic ovr)))"
  using assms
  by (simp add: dataPoints_sort_key sort_key_stable)

text \<open>
  The scenario of the specification, with a host that collates by code unit: three points,
  of which the mirrored one is dropped.
\<close>

theorem series_sorted_stable_witness:
  "collates_by_code_unit code_unit_compare
     (map date (filter organic
        [\<lparr>date = ''2025-01-02'', downloads = Some 5, category = JUndefined\<rparr>,
         \<lparr>date = ''2025-01-01'', downloads = Some 3, category = JStr ''with_mirrors''\<rparr>,
         \<lparr>date = ''2025-01-01'', downloads = Some 2, category = JUndefined\<rparr>]))
   \<and> mset (dataPoints code_unit_compare
        [\<lparr>date = ''2025-01-02'', downloads = Some 5, category = JUndefined\<rparr>,
         \<lparr>date = ''2025-01-01'', downloads = Some 3, category = JStr ''with_mirrors''\<rparr>,
         \<lparr>date = ''2025-01-01'', downloads = Some 2, category = JUndefined\<rparr>])
       = {#(''2025-01-02'', 5), (''2025-01-01'', 2)#}
   \<and> sorted (map fst (dataPoints code_unit_compare
        [\<lparr>date = ''2025-01-02'', downloads = Some 5, category = JUndefined\<rparr>,
         \<lparr>date = ''2025-01-01'', downloads = Some 3, category = JStr ''with_mirrors''\<rparr>,
         \<lparr>date = ''2025-01-01'', downloads = Some 2, category = JUndefined\<rparr>]))"
  using series_sorted_stable [OF code_unit_compare_collates,
      of "[\<lparr>date = ''2025-01-02'', downloads = Some 5, category = JUndefined\<rparr>,
           \<lparr>date = ''2025-01-01'', downloads = Some 3, category = JStr ''with_mirrors''\<rparr>,
           \<lparr>date = ''2025-01-01'', downloads = Some 2, category = JUndefined\<rparr>]"]
  by (simp add: code_unit_compare_collates organic_def to_point_def or_zero_def)

text \<open>
  A point whose category is the empty string is neither without a category nor in the
  category \<^verbatim>\<open>"without_mirrors"\<close>, and it is in the series.
\<close>

theorem spec_organic_counterexample:
  "filter spec_organic [\<lparr>date = ''2025-01-01'', downloads = Some 2, category = JStr ''''\<rparr>] = []
   \<and> dataPoints code_unit_compare
        [\<lparr>date = ''2025-01-01'', downloads = Some 2, category = JStr ''''\<rparr>]
       = [(''2025-01-01'', 2)]"
  by code_simp

subsection \<open>The datasets and the set of dates\<close>

lemma set_Set_add: "set (Set_add v s) = insert v (set s)"
  by (auto simp: Set_add_def)

lemma set_fold_Set_add: "set (fold Set_add vs s) = set vs \<union> set s"
  by (induction vs arbitrary: s) (auto simp: set_Set_add)

lemma set_add_dates: "set (add_dates ovr s) = date ` {d \<in> set ovr. organic d} \<union> set s"
  by (auto simp: add_dates_def set_fold_Set_add)

lemma trends_step_pair:
  "trends_step lc (i, n, p) (dss, ad) =
     (if dataPoints lc (data_or_empty (overall p)) = []
      then (dss, add_dates (data_or_empty (overall p)) ad)
      else (dss @ [\<lparr>label = n, data = dataPoints lc (data_or_empty (overall p)),
                     borderColor = COLORS ! (i mod length COLORS),
                     backgroundColor = COLORS ! (i mod length COLORS) @ ''20''\<rparr>],
            add_dates (data_or_empty (overall p)) ad))"
  by (simp add: trends_step_def Let_def)

lemma fst_trends_fold:
  "map (\<lambda>ds. (label ds, data ds)) (fst (fold (trends_step lc) (enumerate i pkgs) (dss, ad)))
   = map (\<lambda>ds. (label ds, data ds)) dss @ filter (\<lambda>s. snd s \<noteq> []) (map (series_of lc) pkgs)"
proof (induction pkgs arbitrary: i dss ad)
  case Nil
  show ?case by simp
next
  case (Cons e pkgs)
  obtain n p where e: "e = (n, p)" by (cases e)
  show ?case
    by (cases "dataPoints lc (data_or_empty (overall p)) = []")
       (simp_all add: e trends_step_pair Cons.IH series_of_def)
qed

lemma snd_trends_fold:
  "set (snd (fold (trends_step lc) (enumerate i pkgs) (dss, ad)))
   = set ad \<union> (\<Union>e\<in>set pkgs. date ` {d \<in> set (data_or_empty (overall (snd e))). organic d})"
proof (induction pkgs arbitrary: i dss ad)
  case Nil
  show ?case by simp
next
  case (Cons e pkgs)
  obtain n p where e: "e = (n, p)" by (cases e)
  show ?case
    by (cases "dataPoints lc (data_or_empty (overall p)) = []")
       (auto simp: e trends_step_pair Cons.IH set_add_dates)
qed

lemma series_of_renderTrendsChart:
  "map (\<lambda>ds. (label ds, data ds)) (fst (renderTrendsChart lc pkgs))
   = filter (\<lambda>s. snd s \<noteq> []) (map (series_of lc) pkgs)"
  by (simp add: renderTrendsChart_def fst_trends_fold)

text \<open>
  C6, as amended. A package none of whose points passes the test of the script (category
  falsy, or equal to \<^verbatim>\<open>"without_mirrors"\<close>) has no dataset in the trends chart; this covers
  a package without the \<^verbatim>\<open>overall\<close> facet and one whose facet is empty. The names of the
  packages are those of an object, hence distinct.
\<close>

theorem empty_series_omitted:
  assumes "distinct (map fst pkgs)"
    and "(pkgName, pkgData) \<in> set pkgs"
    and "filter organic (data_or_empty (overall pkgData)) = []"
  shows "pkgName \<notin> label ` set (fst (renderTrendsChart localeCompare pkgs))"
proof
  assume "pkgName \<in> label ` set (fst (renderTrendsChart localeCompare pkgs))"
  then have "pkgName \<in> fst ` set (map (\<lambda>ds. (label ds, data ds)) (fst (renderTrendsChart localeCompare pkgs)))"
    by force
  then have "pkgName \<in> fst ` {s \<in> series_of localeCompare ` set pkgs. snd s \<noteq> []}"
    by (simp add: series_of_renderTrendsChart)
  then obtain e where e: "e \<in> set pkgs" "fst e = pkgName"
    and ne: "dataPoints localeCompare (data_or_empty (overall (snd e))) \<noteq> []"
    by (auto simp: series_of_def)
  from e have "(pkgName, snd e) \<in> set pkgs"
    by auto
  with assms(1) assms(2) have "snd e = pkgData"
    by (meson eq_key_imp_eq_value)
  with ne assms(3) show False
    by (simp add: dataPoints_Nil_iff)
qed

text \<open>
  Two packages, the second with a mirrored point only: it has no dataset.
\<close>

theorem empty_series_omitted_witness:
  "distinct (map fst
      [(''pkgA'', \<lparr>recent = None,
          overall = Some (Some [\<lparr>date = ''2025-01-01'', downloads = Some 2, category = JUndefined\<rparr>]),
          python_versions = None, system = None\<rparr>),
       (''pkgB'', \<lparr>recent = None,
          overall = Some (Some [\<lparr>date = ''2025-01-01'', downloads = Some 3, category = JStr ''with_mirrors''\<rparr>]),
          python_versions = None, system = None\<rparr>)])
   \<and> filter organic (data_or_empty (overall
        \<lparr>recent = None,
          overall = Some (Some [\<lparr>date = ''2025-01-01'', downloads = Some 3, category = JStr ''with_mirrors''\<rparr>]),
          python_versions = None, system = None\<rparr>)) = []
   \<and> ''pkgB'' \<notin> label ` set (fst (renderTrendsChart code_unit_compare
      [(''pkgA'', \<lparr>recent = None,
          overall = Some (Some [\<lparr>date = ''2025-01-01'', downloads = Some 2, category = JUndefined\<rparr>]),
          python_versions = None, system = None\<rparr>),
       (''pkgB'', \<lparr>recent = None,
          overall = Some (Some [\<lparr>date = ''2025-01-01'', downloads = Some 3, category = JStr ''with_mirrors''\<rparr>]),
          python_versions = None, system = None\<rparr>)]))"
proof -
  let ?b = "\<lparr>recent = None,
          overall = Some (Some [\<lparr>date = ''2025-01-01'', downloads = Some 3, category = JStr ''with_mirrors''\<rparr>]),
          python_versions = None, system = None\<rparr>"
  let ?pkgs = "[(''pkgA'', \<lparr>recent = None,
          overall = Some (Some [\<lparr>date = ''2025-01-01'', downloads = Some 2, category = JUndefined\<rparr>]),
          python_versions = None, system = None\<rparr>), (''pkgB'', ?b)]"
  have d: "distinct (map fst ?pkgs)"
    by simp
  have m: "(''pkgB'', ?b) \<in> set ?pkgs"
    by simp
  have e: "filter organic (data_or_empty (overall ?b)) = []"
    by (simp add: organic_def data_or_empty_def facet_data_def)
  from empty_series_omitted [OF d m e, of code_unit_compare] d e show ?thesis
    by simp
qed

text \<open>
  A package whose only point has the empty string as category has no point that is without
  a category or in the category \<^verbatim>\<open>"without_mirrors"\<close>, and it has a dataset.
\<close>

theorem series_present_counterexample:
  "filter spec_organic (data_or_empty (overall
       \<lparr>recent = None,
          overall = Some (Some [\<lparr>date = ''2025-01-01'', downloads = Some 2, category = JStr ''''\<rparr>]),
          python_versions = None, system = None\<rparr>)) = []
   \<and> map label (fst (renderTrendsChart code_unit_compare
      [(''pkgA'', \<lparr>recent = None,
          overall = Some (Some [\<lparr>date = ''2025-01-01'', downloads = Some 2, category = JStr ''''\<rparr>]),
          python_versions = None, system = None\<rparr>)])) = [''pkgA'']"
  by code_simp

text \<open>
  C7, as amended. A date is in the set \<^verbatim>\<open>allDates\<close> exactly when some package has, in its
  \<^verbatim>\<open>overall\<close> facet, a point with that date whose category is falsy (absent, null, false,
  zero or the empty string) or equal to \<^verbatim>\<open>"without_mirrors"\<close>. A date that occurs on dropped
  points only is not in the set.
\<close>

theorem allDates_membership:
  "d \<in> set (snd (renderTrendsChart localeCompare pkgs)) \<longleftrightarrow>
     (\<exists>e\<in>set pkgs. \<exists>pt\<in>set (data_or_empty (overall (snd e))).
        date pt = d \<and> (\<not> truthy (category pt) \<or> category pt = JStr ''without_mirrors''))"
  by (auto simp: renderTrendsChart_def snd_trends_fold organic_def)

text \<open>
  One package with an organic point on the second of January and a mirrored point on the
  first: the second is in the set, the first is not.
\<close>

theorem allDates_membership_witness:
  "''2025-01-02'' \<in> set (snd (renderTrendsChart code_unit_compare
      [(''pkgA'', \<lparr>recent = None,
          overall = Some (Some [\<lparr>date = ''2025-01-02'', downloads = Some 5, category = JUndefined\<rparr>,
                                \<lparr>date = ''2025-01-01'', downloads = Some 3, category = JStr ''with_mirrors''\<rparr>]),
          python_versions = None, system = None\<rparr>)]))
   \<and> ''2025-01-01'' \<notin> set (snd (renderTrendsChart code_unit_compare
      [(''pkgA'', \<lparr>recent = None,
          overall = Some (Some [\<lparr>date = ''2025-01-02'', downloads = Some 5, category = JUndefined\<rparr>,
                                \<lparr>date = ''2025-01-01'', downloads = Some 3, category = JStr ''with_mirrors''\<rparr>]),
          python_versions = None, system = None\<rparr>)]))"
proof -
  let ?pkgs = "[(''pkgA'', \<lparr>recent = None,
          overall = Some (Some [\<lparr>date = ''2025-01-02'', downloads = Some 5, category = JUndefined\<rparr>,
                                \<lparr>date = ''2025-01-01'', downloads = Some 3, category = JStr ''with_mirrors''\<rparr>]),
          python_versions = None, system = None\<rparr>)]"
  show ?thesis
    using allDates_membership [of "''2025-01-02''" code_unit_compare ?pkgs]
      allDates_membership [of "''2025-01-01''" code_unit_compare ?pkgs]
    by (simp add: data_or_empty_def facet_data_def)
qed

text \<open>
  The date of a point whose category is the empty string is in the set, although no point
  is without a category or in the category \<^verbatim>\<open>"without_mirrors"\<close>.
\<close>

theorem date_present_counterexample:
  "filter spec_organic (data_or_empty (overall
       \<lparr>recent = None,
          overall = Some (Some [\<lparr>date = ''2025-01-01'', downloads = Some 2, category = JStr ''''\<rparr>]),
          python_versions = None, system = None\<rparr>)) = []
   \<and> snd (renderTrendsChart code_unit_compare
      [(''pkgA'', \<lparr>recent = None,
          overall = Some (Some [\<lparr>date = ''2025-01-01'', downloads = Some 2, category = JStr ''''\<rparr>]),
          python_versions = None, system = None\<rparr>)]) = [''2025-01-01'']"
  by code_simp

subsection \<open>The totals of the categorical charts\<close>

lemma fold_items_concat:
  "fold (\<lambda>pkgData obj. fold add_item (data_or_empty (facet pkgData)) obj) (map snd pkgs) obj
   = fold add_item (all_items facet pkgs) obj"
  by (induction pkgs arbitrary: obj) (simp_all add: all_items_def)

lemma aggregate_all_items: "aggregate facet pkgs = fold add_item (all_items facet pkgs) []"
  by (simp add: aggregate_def fold_items_concat)

lemma add_item_not_counted: "\<not> counted item \<Longrightarrow> add_item item obj = obj"
  by (simp add: add_item_def)

lemma fold_add_item_filter: "fold add_item items obj = fold add_item (filter counted items) obj"
  by (induction items arbitrary: obj) (simp_all add: add_item_not_counted)

lemma distinct_set_prop: "distinct (map fst obj) \<Longrightarrow> distinct (map fst (set_prop obj k v))"
  by (simp add: set_prop_def distinct_update)

lemma distinct_add_item: "distinct (map fst obj) \<Longrightarrow> distinct (map fst (add_item item obj))"
  by (simp add: add_item_def Let_def distinct_set_prop)

lemma distinct_fold_add_item:
  "distinct (map fst obj) \<Longrightarrow> distinct (map fst (fold add_item items obj))"
  by (induction items arbitrary: obj) (simp_all add: distinct_add_item)

lemma distinct_aggregate: "distinct (map fst (aggregate facet pkgs))"
  by (simp add: aggregate_all_items distinct_fold_add_item)

lemma proto_is_inherited: "''__proto__'' \<in> set object_prototype_names"
  by (simp add: object_prototype_names_def)

lemma map_of_add_item_safe:
  assumes "counted item" and "item_key item \<notin> set object_prototype_names"
  shows "map_of (add_item item obj)
         = (map_of obj)(item_key item \<mapsto>
              or_zero_plus (get_prop obj (item_key item)) (or_zero (item_downloads item)))"
proof -
  have "item_key item \<noteq> ''__proto__''"
    using assms(2) proto_is_inherited by metis
  with assms(1) show ?thesis
    by (simp add: add_item_def Let_def set_prop_def update_conv' flip: item_key_def)
qed

lemma or_zero_plus_not_junk:
  assumes "k \<notin> set object_prototype_names" and "map_of obj k \<noteq> Some Junk"
  shows "or_zero_plus (get_prop obj k) n \<noteq> Junk"
proof (cases "map_of obj k")
  case None
  with assms(1) show ?thesis
    by (simp add: get_prop_def)
next
  case (Some t)
  with assms(2) obtain m where "t = Number m"
    by (cases t) auto
  with Some show ?thesis
    by (cases m) (simp_all add: get_prop_def)
qed

lemma no_junk_add_item:
  assumes "counted item \<longrightarrow> item_key item \<notin> set object_prototype_names"
    and "\<forall>k. map_of obj k \<noteq> Some Junk"
  shows "\<forall>k. map_of (add_item item obj) k \<noteq> Some Junk"
proof (cases "counted item")
  case False
  with assms(2) show ?thesis
    by (simp add: add_item_not_counted)
next
  case True
  with assms(1) have safe: "item_key item \<notin> set object_prototype_names"
    by simp
  have "or_zero_plus (get_prop obj (item_key item)) (or_zero (item_downloads item)) \<noteq> Junk"
    using safe assms(2) by (simp add: or_zero_plus_not_junk)
  with assms(2) show ?thesis
    by (simp add: map_of_add_item_safe [OF True safe])
qed

lemma safe_keys_Cons:
  "safe_keys (item # items) \<longleftrightarrow>
     (counted item \<longrightarrow> item_key item \<notin> set object_prototype_names) \<and> safe_keys items"
  by (simp add: safe_keys_def)

lemma no_junk_fold_add_item:
  assumes "safe_keys items" and "\<forall>k. map_of obj k \<noteq> Some Junk"
  shows "\<forall>k. map_of (fold add_item items obj) k \<noteq> Some Junk"
  using assms
proof (induction items arbitrary: obj)
  case Nil
  then show ?case by simp
next
  case (Cons item items)
  have "\<forall>k. map_of (add_item item obj) k \<noteq> Some Junk"
    using Cons.prems by (simp add: no_junk_add_item safe_keys_Cons)
  moreover have "safe_keys items"
    using Cons.prems(1) by (simp add: safe_keys_Cons)
  ultimately show ?case
    using Cons.IH by simp
qed

lemma no_junk_aggregate:
  assumes "safe_keys (all_items facet pkgs)"
  shows "\<forall>e\<in>set (aggregate facet pkgs). snd e \<noteq> Junk"
proof
  fix e assume "e \<in> set (aggregate facet pkgs)"
  then have "(fst e, snd e) \<in> set (aggregate facet pkgs)"
    by simp
  then have "map_of (aggregate facet pkgs) (fst e) = Some (snd e)"
    using distinct_aggregate by simp
  moreover have "\<forall>k. map_of (aggregate facet pkgs) k \<noteq> Some Junk"
    using no_junk_fold_add_item [OF assms, of "[]"] by (simp add: aggregate_all_items)
  ultimately show "snd e \<noteq> Junk"
    by metis
qed

lemma abs_sum_nonneg: "0 \<le> abs_sum items"
  by (auto simp: abs_sum_def intro!: sum_list_nonneg)

lemma abs_sum_Cons:
  "abs_sum (item # items) =
     (if counted item then \<bar>or_zero (item_downloads item)\<bar> else 0) + abs_sum items"
  by (simp add: abs_sum_def)

lemma key_sum_Cons:
  "key_sum k (item # items) =
     (if counted item \<and> item_key item = k then or_zero (item_downloads item) else 0) + key_sum k items"
  by (simp add: key_sum_def)

lemma key_sum_none:
  assumes "\<forall>item\<in>set items. counted item \<longrightarrow> item_key item \<noteq> k"
  shows "key_sum k items = 0"
proof -
  have "filter (\<lambda>item. counted item \<and> item_key item = k) items = []"
    using assms by (auto simp: filter_empty_conv)
  then show ?thesis
    by (simp add: key_sum_def)
qed

lemma map_of_add_item:
  assumes "counted item"
    and "item_key item \<notin> set object_prototype_names"
    and "\<forall>t. map_of obj (item_key item) = Some t \<longrightarrow> (\<exists>c. t = Count c)"
    and "\<bar>own_count obj (item_key item) + or_zero (item_downloads item)\<bar> < 2 ^ 53"
  shows "map_of (add_item item obj)
         = (map_of obj)(item_key item \<mapsto>
              Count (own_count obj (item_key item) + or_zero (item_downloads item)))"
proof -
  let ?k = "item_key item" and ?n = "or_zero (item_downloads item)"
  have "or_zero_plus (get_prop obj ?k) ?n = Count (own_count obj ?k + ?n)"
  proof (cases "map_of obj ?k")
    case None
    then show ?thesis
      using assms(2) assms(4) by (simp add: get_prop_def own_count_def round_double_exact)
  next
    case (Some t)
    with assms(3) obtain c where "t = Count c"
      by auto
    with Some show ?thesis
      using assms(4) by (simp add: get_prop_def own_count_def round_double_exact)
  qed
  then show ?thesis
    by (simp add: map_of_add_item_safe [OF assms(1) assms(2)])
qed

lemma map_of_fold_add_item:
  assumes "safe_keys items" and "abs_sum items < 2 ^ 53"
    and "\<forall>k t. map_of obj k = Some t \<longrightarrow> (\<exists>c. t = Count c \<and> \<bar>c\<bar> + abs_sum items < 2 ^ 53)"
  shows "map_of (fold add_item items obj) k =
           (if \<exists>item\<in>set items. counted item \<and> item_key item = k
            then Some (Count (own_count obj k + key_sum k items))
            else map_of obj k)"
  using assms
proof (induction items arbitrary: obj)
  case Nil
  show ?case by simp
next
  case (Cons item items)
  show ?case
  proof (cases "counted item")
    case False
    have "safe_keys items"
      using Cons.prems(1) by (simp add: safe_keys_Cons)
    moreover have "abs_sum items < 2 ^ 53"
      using Cons.prems(2) False by (simp add: abs_sum_Cons)
    moreover have "\<forall>k t. map_of obj k = Some t \<longrightarrow> (\<exists>c. t = Count c \<and> \<bar>c\<bar> + abs_sum items < 2 ^ 53)"
      using Cons.prems(3) False by (simp add: abs_sum_Cons)
    ultimately have "map_of (fold add_item items obj) k =
            (if \<exists>i\<in>set items. counted i \<and> item_key i = k
             then Some (Count (own_count obj k + key_sum k items))
             else map_of obj k)"
      by (rule Cons.IH)
    with False show ?thesis
      by (auto simp: add_item_not_counted key_sum_Cons)
  next
    case True
    let ?obj = "add_item item obj"
    let ?k = "item_key item" and ?n = "or_zero (item_downloads item)"
    have safe: "?k \<notin> set object_prototype_names" and rest: "safe_keys items"
      using Cons.prems(1) True by (simp_all add: safe_keys_Cons)
    have sum: "\<bar>?n\<bar> + abs_sum items < 2 ^ 53"
      using Cons.prems(2) True by (simp add: abs_sum_Cons)
    have nonneg: "0 \<le> abs_sum items"
      by (rule abs_sum_nonneg)
    have fin: "\<forall>t. map_of obj ?k = Some t \<longrightarrow> (\<exists>c. t = Count c)"
      using Cons.prems(3) by blast
    have own: "\<bar>own_count obj ?k\<bar> + \<bar>?n\<bar> + abs_sum items < 2 ^ 53"
    proof (cases "map_of obj ?k")
      case None
      with sum show ?thesis
        by (simp add: own_count_def)
    next
      case (Some t)
      with Cons.prems(3) obtain c where "t = Count c" and "\<bar>c\<bar> + abs_sum (item # items) < 2 ^ 53"
        by blast
      with Some True show ?thesis
        by (simp add: own_count_def abs_sum_Cons)
    qed
    then have small: "\<bar>own_count obj ?k + ?n\<bar> < 2 ^ 53"
      using nonneg by linarith
    have step: "map_of ?obj = (map_of obj)(?k \<mapsto> Count (own_count obj ?k + ?n))"
      using True safe fin small by (rule map_of_add_item)
    have inv: "\<forall>k t. map_of ?obj k = Some t \<longrightarrow> (\<exists>c. t = Count c \<and> \<bar>c\<bar> + abs_sum items < 2 ^ 53)"
    proof (intro allI impI)
      fix k' t assume t: "map_of ?obj k' = Some t"
      show "\<exists>c. t = Count c \<and> \<bar>c\<bar> + abs_sum items < 2 ^ 53"
      proof (cases "k' = ?k")
        case True
        with t step have "t = Count (own_count obj ?k + ?n)"
          by simp
        moreover have "\<bar>own_count obj ?k + ?n\<bar> + abs_sum items < 2 ^ 53"
          using own by linarith
        ultimately show ?thesis
          by blast
      next
        case False
        with t step have "map_of obj k' = Some t"
          by simp
        with Cons.prems(3) obtain c where "t = Count c" and "\<bar>c\<bar> + abs_sum (item # items) < 2 ^ 53"
          by blast
        then show ?thesis
          using \<open>counted item\<close> by (auto simp: abs_sum_Cons)
      qed
    qed
    have rest_sum: "abs_sum items < 2 ^ 53"
      using sum by linarith
    have own_step: "own_count ?obj k =
                 (if ?k = k then own_count obj k + ?n else own_count obj k)"
      by (simp add: own_count_def step)
    have "map_of (fold add_item items ?obj) k =
            (if \<exists>i\<in>set items. counted i \<and> item_key i = k
             then Some (Count (own_count ?obj k + key_sum k items))
             else map_of ?obj k)"
      using rest rest_sum inv by (rule Cons.IH)
    then show ?thesis
      using True by (auto simp: own_step key_sum_Cons step key_sum_none)
  qed
qed

lemma map_of_aggregate:
  assumes "safe_keys (all_items facet pkgs)" and "exact_range (all_items facet pkgs)"
  shows "map_of (aggregate facet pkgs) k =
           (if \<exists>item\<in>set (all_items facet pkgs). counted item \<and> item_key item = k
            then Some (Count (key_sum k (all_items facet pkgs)))
            else None)"
proof -
  have "abs_sum (all_items facet pkgs) < 2 ^ 53"
    using assms(2) by (simp add: exact_range_def)
  from map_of_fold_add_item [OF assms(1) this, of "[]" k] show ?thesis
    by (simp add: aggregate_all_items own_count_def)
qed

lemma in_set_aggregate:
  assumes "safe_keys (all_items facet pkgs)" and "exact_range (all_items facet pkgs)"
  shows "(k, v) \<in> set (aggregate facet pkgs) \<longleftrightarrow>
           (\<exists>item\<in>set (all_items facet pkgs). counted item \<and> item_key item = k)
           \<and> v = Count (key_sum k (all_items facet pkgs))"
proof -
  have "(k, v) \<in> set (aggregate facet pkgs) \<longleftrightarrow> map_of (aggregate facet pkgs) k = Some v"
    using distinct_aggregate by simp
  then show ?thesis
    by (auto simp: map_of_aggregate [OF assms])
qed

lemma set_Object_entries: "set (Object_entries obj) = set obj"
  by (auto simp: Object_entries_def)

lemma mset_Object_entries: "mset (Object_entries obj) = mset obj"
  by (simp add: Object_entries_def)

lemma set_sortedSystems: "set (sortedSystems pkgs) = set (aggregate system pkgs)"
  by (simp add: sortedSystems_def systemTotals_def set_array_sort set_Object_entries)

lemma set_sortedVersions: "set (sortedVersions pkgs) \<subseteq> set (aggregate python_versions pkgs)"
  using set_take_subset [of 10 "array_sort by_total (Object_entries (versionTotals pkgs))"]
  by (simp add: sortedVersions_def versionTotals_def set_array_sort set_Object_entries)

text \<open>
  C2, as amended. For either facet, the totals object is what the entries that pass the
  test of the script alone produce: an entry whose category is falsy (absent, null, false,
  zero or the empty string) or the string \<^verbatim>\<open>"null"\<close> contributes to no total. Where no
  counted entry has a category that names an inherited property of a plain object, and the
  downloads of the counted entries add up, in absolute value, to less than \<open>2 ^ 53\<close> (so
  that the host adds them exactly), the object holds a key exactly when some counted entry
  has it, and its total is the sum of the downloads (zero when absent) of the counted
  entries with that key, over all packages. The operating-system list holds the pairs of
  the object, the interpreter-version list holds pairs of the object.
\<close>

theorem totals_are_sums:
  "aggregate facet pkgs = fold add_item (filter counted (all_items facet pkgs)) []
   \<and> (safe_keys (all_items facet pkgs) \<and> exact_range (all_items facet pkgs) \<longrightarrow>
        ((k, v) \<in> set (aggregate facet pkgs) \<longleftrightarrow>
           (\<exists>item\<in>set (all_items facet pkgs). counted item \<and> item_key item = k)
           \<and> v = Count (key_sum k (all_items facet pkgs))))
   \<and> set (sortedSystems pkgs) = set (aggregate system pkgs)
   \<and> set (sortedVersions pkgs) \<subseteq> set (aggregate python_versions pkgs)"
proof -
  have "aggregate facet pkgs = fold add_item (filter counted (all_items facet pkgs)) []"
    by (simp add: aggregate_all_items flip: fold_add_item_filter)
  then show ?thesis
    using in_set_aggregate [of facet pkgs k v]
    by (simp add: set_sortedSystems set_sortedVersions)
qed

text \<open>
The scenario of the specification: two packages, 80 and 20 downloads under 3.10.
\<close>

theorem totals_are_sums_witness:
  "safe_keys (all_items python_versions
      [(''pkgA'', \<lparr>recent = None, overall = None,
          python_versions = Some (Some [\<lparr>item_category = JStr ''3.9'', item_downloads = Some 50\<rparr>,
                                        \<lparr>item_category = JStr ''3.10'', item_downloads = Some 80\<rparr>]),
          system = None\<rparr>),
       (''pkgB'', \<lparr>recent = None, overall = None,
          python_versions = Some (Some [\<lparr>item_category = JStr ''3.10'', item_downloads = Some 20\<rparr>,
                                        \<lparr>item_category = JStr ''null'', item_downloads = Some 999\<rparr>]),
          system = None\<rparr>)])
   \<and> exact_range (all_items python_versions
      [(''pkgA'', \<lparr>recent = None, overall = None,
          python_versions = Some (Some [\<lparr>item_category = JStr ''3.9'', item_downloads = Some 50\<rparr>,
                                        \<lparr>item_category = JStr ''3.10'', item_downloads = Some 80\<rparr>]),
          system = None\<rparr>),
       (''pkgB'', \<lparr>recent = None, overall = None,
          python_versions = Some (Some [\<lparr>item_category = JStr ''3.10'', item_downloads = Some 20\<rparr>,
                                        \<lparr>item_category = JStr ''null'', item_downloads = Some 999\<rparr>]),
          system = None\<rparr>)])
   \<and> (''3.10'', Count 100) \<in> set (aggregate python_versions
      [(''pkgA'', \<lparr>recent = None, overall = None,
          python_versions = Some (Some [\<lparr>item_category = JStr ''3.9'', item_downloads = Some 50\<rparr>,
                                        \<lparr>item_category = JStr ''3.10'', item_downloads = Some 80\<rparr>]),
          system = None\<rparr>),
       (''pkgB'', \<lparr>recent = None, overall = None,
          python_versions = Some (Some [\<lparr>item_category = JStr ''3.10'', item_downloads = Some 20\<rparr>,
                                        \<lparr>item_category = JStr ''null'', item_downloads = Some 999\<rparr>]),
          system = None\<rparr>)])"
proof -
  let ?pkgs = "[(''pkgA'', \<lparr>recent = None, overall = None,
          python_versions = Some (Some [\<lparr>item_category = JStr ''3.9'', item_downloads = Some 50\<rparr>,
                                        \<lparr>item_category = JStr ''3.10'', item_downloads = Some 80\<rparr>]),
          system = None\<rparr>),
       (''pkgB'', \<lparr>recent = None, overall = None,
          python_versions = Some (Some [\<lparr>item_category = JStr ''3.10'', item_downloads = Some 20\<rparr>,
                                        \<lparr>item_category = JStr ''null'', item_downloads = Some 999\<rparr>]),
          system = None\<rparr>)]"
  have safe: "safe_keys (all_items python_versions ?pkgs)"
    by code_simp
  have range: "exact_range (all_items python_versions ?pkgs)"
    by code_simp
  have ex: "\<exists>item\<in>set (all_items python_versions ?pkgs). counted item \<and> item_key item = ''3.10''"
    by code_simp
  have sum: "key_sum ''3.10'' (all_items python_versions ?pkgs) = 100"
    by code_simp
  note sums = totals_are_sums [of python_versions ?pkgs "''3.10''" "Count 100",
      THEN conjunct2, THEN conjunct1]
  from sums safe range ex sum have "(''3.10'', Count 100) \<in> set (aggregate python_versions ?pkgs)"
    by simp
  with safe range show ?thesis
    by simp
qed

text \<open>
  An entry with the empty string as category is not one of those the specification
  excludes, and no total accounts for its downloads.
\<close>

theorem spec_excluded_counterexample:
  "\<not> spec_excluded \<lparr>item_category = JStr '''', item_downloads = Some 9\<rparr>
   \<and> versionTotals
      [(''pkgA'', \<lparr>recent = None, overall = None,
          python_versions = Some (Some [\<lparr>item_category = JStr '''', item_downloads = Some 9\<rparr>,
                                        \<lparr>item_category = JStr ''3.9'', item_downloads = Some 50\<rparr>]),
          system = None\<rparr>)]
     = [(''3.9'', Count 50)]"
  by code_simp

text \<open>
  A category that names an inherited property: the total stored is a string, not the
  number of downloads.
\<close>

lemma constructor_total:
  "sortedVersions
      [(''pkgA'', \<lparr>recent = None, overall = None,
          python_versions = Some (Some [\<lparr>item_category = JStr ''constructor'', item_downloads = Some 5\<rparr>]),
          system = None\<rparr>)]
   = [(''constructor'', Junk)]"
  by code_simp

text \<open>
  Beyond the exact range the total stored is the rounded sum: \<open>2 ^ 53\<close> and one more
  download give \<open>2 ^ 53\<close>.
\<close>

lemma rounded_total:
  "sortedSystems
      [(''pkgA'', \<lparr>recent = None, overall = None, python_versions = None,
          system = Some (Some [\<lparr>item_category = JStr ''Linux'', item_downloads = Some (2 ^ 53)\<rparr>,
                               \<lparr>item_category = JStr ''Linux'', item_downloads = Some 1\<rparr>])\<rparr>)]
   = [(''Linux'', Count (2 ^ 53))]"
  by code_simp

subsection \<open>The ranked lists\<close>

lemma by_total_rank_key:
  "snd a \<noteq> Junk \<Longrightarrow> snd b \<noteq> Junk \<Longrightarrow> (by_total a b \<le> 0) = (rank_key a \<le> rank_key b)"
proof -
  assume a: "snd a \<noteq> Junk" and b: "snd b \<noteq> Junk"
  obtain ka ta kb tb where ab: "a = (ka, ta)" "b = (kb, tb)"
    by (cases a; cases b) auto
  from a ab obtain na where na: "ta = Number na"
    by (cases ta) auto
  from b ab obtain nb where nb: "tb = Number nb"
    by (cases tb) auto
  show ?thesis
    using sign_round_double
    by (cases na; cases nb) (auto simp: ab na nb by_total_def)
qed

lemma ranked_sort_key:
  assumes "\<forall>e\<in>set es. snd e \<noteq> Junk"
  shows "array_sort by_total es = sort_key rank_key es"
  by (rule array_sort_sort_key) (simp add: assms by_total_rank_key)

lemma rank_key_total_ge:
  "snd a \<noteq> Junk \<Longrightarrow> snd b \<noteq> Junk \<Longrightarrow> rank_key a \<le> rank_key b \<Longrightarrow> total_ge (snd a) (snd b)"
proof -
  assume a: "snd a \<noteq> Junk" and b: "snd b \<noteq> Junk" and le: "rank_key a \<le> rank_key b"
  obtain ka ta kb tb where ab: "a = (ka, ta)" "b = (kb, tb)"
    by (cases a; cases b) auto
  from a ab obtain na where na: "ta = Number na"
    by (cases ta) auto
  from b ab obtain nb where nb: "tb = Number nb"
    by (cases tb) auto
  show ?thesis
    using le by (cases na; cases nb) (auto simp: ab na nb)
qed

lemma ranked_descending:
  assumes "\<forall>e\<in>set es. snd e \<noteq> Junk"
  shows "sorted_wrt (\<lambda>a b. total_ge (snd a) (snd b)) (array_sort by_total es)"
proof -
  have "sorted (map rank_key (sort_key rank_key es))"
    by (rule sorted_sort_key)
  then have asc: "sorted_wrt (\<lambda>a b. rank_key a \<le> rank_key b) (sort_key rank_key es)"
    by (simp add: sorted_map)
  have "sorted_wrt (\<lambda>a b. total_ge (snd a) (snd b)) (sort_key rank_key es)"
  proof (rule sorted_wrt_mono_rel)
    show "sorted_wrt (\<lambda>a b. rank_key a \<le> rank_key b) (sort_key rank_key es)"
      by (rule asc)
  next
    fix a b
    assume "a \<in> set (sort_key rank_key es)" and "b \<in> set (sort_key rank_key es)"
      and "rank_key a \<le> rank_key b"
    then show "total_ge (snd a) (snd b)"
      using assms by (simp add: rank_key_total_ge)
  qed
  then show ?thesis
    by (simp add: ranked_sort_key [OF assms])
qed

lemma ranking_descending:
  assumes "safe_keys (all_items facet pkgs)"
  shows "sorted_wrt (\<lambda>a b. total_ge (snd a) (snd b))
           (array_sort by_total (Object_entries (aggregate facet pkgs)))"
  by (rule ranked_descending) (simp add: set_Object_entries no_junk_aggregate [OF assms])

text \<open>
  C3, as amended. Where no counted entry has a category that names an inherited property
  of a plain object, both ranked lists are sorted in descending order of total: every total
  is a number and none is below a later one. Equal totals occur, so the order is not
  strict.
\<close>

theorem ranked_lists_descending:
  "(safe_keys (all_items python_versions pkgs) \<longrightarrow> descending (sortedVersions pkgs))
   \<and> (safe_keys (all_items system pkgs) \<longrightarrow> descending (sortedSystems pkgs))"
  by (simp add: sortedVersions_def sortedSystems_def versionTotals_def systemTotals_def
      ranking_descending descending_def)

text \<open>
The scenario of the specification.
\<close>

theorem ranked_lists_descending_witness:
  "safe_keys (all_items python_versions
      [(''pkgA'', \<lparr>recent = None, overall = None,
          python_versions = Some (Some [\<lparr>item_category = JStr ''3.9'', item_downloads = Some 50\<rparr>,
                                        \<lparr>item_category = JStr ''3.10'', item_downloads = Some 80\<rparr>]),
          system = None\<rparr>),
       (''pkgB'', \<lparr>recent = None, overall = None,
          python_versions = Some (Some [\<lparr>item_category = JStr ''3.10'', item_downloads = Some 20\<rparr>,
                                        \<lparr>item_category = JStr ''null'', item_downloads = Some 999\<rparr>]),
          system = None\<rparr>)])
   \<and> descending (sortedVersions
      [(''pkgA'', \<lparr>recent = None, overall = None,
          python_versions = Some (Some [\<lparr>item_category = JStr ''3.9'', item_downloads = Some 50\<rparr>,
                                        \<lparr>item_category = JStr ''3.10'', item_downloads = Some 80\<rparr>]),
          system = None\<rparr>),
       (''pkgB'', \<lparr>recent = None, overall = None,
          python_versions = Some (Some [\<lparr>item_category = JStr ''3.10'', item_downloads = Some 20\<rparr>,
                                        \<lparr>item_category = JStr ''null'', item_downloads = Some 999\<rparr>]),
          system = None\<rparr>)])"
proof -
  let ?pkgs = "[(''pkgA'', \<lparr>recent = None, overall = None,
          python_versions = Some (Some [\<lparr>item_category = JStr ''3.9'', item_downloads = Some 50\<rparr>,
                                        \<lparr>item_category = JStr ''3.10'', item_downloads = Some 80\<rparr>]),
          system = None\<rparr>),
       (''pkgB'', \<lparr>recent = None, overall = None,
          python_versions = Some (Some [\<lparr>item_category = JStr ''3.10'', item_downloads = Some 20\<rparr>,
                                        \<lparr>item_category = JStr ''null'', item_downloads = Some 999\<rparr>]),
          system = None\<rparr>)]"
  have safe: "safe_keys (all_items python_versions ?pkgs)"
    by code_simp
  with ranked_lists_descending [of ?pkgs] show ?thesis
    by simp
qed

text \<open>
Two operating systems with five downloads each: the list is not strictly descending.
\<close>

theorem strictly_descending_counterexample:
  "\<not> strictly_descending (sortedSystems
      [(''pkgA'', \<lparr>recent = None, overall = None, python_versions = None,
          system = Some (Some [\<lparr>item_category = JStr ''Linux'', item_downloads = Some 5\<rparr>,
                               \<lparr>item_category = JStr ''Windows'', item_downloads = Some 5\<rparr>])\<rparr>)])"
  by code_simp

text \<open>
  The interpreter-version list has at most ten entries; the operating-system list is a
  permutation of the own properties of its totals object.
\<close>

lemma length_sortedVersions: "length (sortedVersions pkgs) \<le> 10"
  by (simp add: sortedVersions_def)

lemma mset_sortedSystems: "mset (sortedSystems pkgs) = mset (systemTotals pkgs)"
  by (simp add: sortedSystems_def mset_array_sort mset_Object_entries)

text \<open>
  C4. The operating-system list has no entry for the counted category \<^verbatim>\<open>__proto__\<close>:
  the assignment to that key of a plain object stores nothing.
\<close>

theorem proto_entry_missing:
  "counted \<lparr>item_category = JStr ''__proto__'', item_downloads = Some 7\<rparr>
   \<and> sortedSystems
      [(''pkgA'', \<lparr>recent = None, overall = None, python_versions = None,
          system = Some (Some [\<lparr>item_category = JStr ''__proto__'', item_downloads = Some 7\<rparr>,
                               \<lparr>item_category = JStr ''Linux'', item_downloads = Some 5\<rparr>])\<rparr>)]
     = [(''Linux'', Count 5)]"
  by code_simp

text \<open>
  C10. An entry whose category is falsy, the empty string among them, leaves the totals
  as they are without it, in either facet; a point whose category is falsy is in the
  series of its package.
\<close>

theorem falsy_category:
  assumes "\<not> truthy c"
  shows "(item_category item = c \<and> all_items facet pkgs = xs @ item # ys
            \<longrightarrow> aggregate facet pkgs = fold add_item (xs @ ys) [])
       \<and> (category pt = c \<and> pt \<in> set ovr \<longrightarrow> to_point pt \<in> set (dataPoints localeCompare ovr))"
  using assms
  by (auto simp: aggregate_all_items add_item_not_counted counted_def set_dataPoints organic_def)

text \<open>
  An operating-system entry and a point, both with the empty string as category.
\<close>

theorem falsy_category_witness:
  "\<not> truthy (JStr '''')
   \<and> all_items system
        [(''pkgA'', \<lparr>recent = None, overall = None, python_versions = None,
            system = Some (Some [\<lparr>item_category = JStr ''Linux'', item_downloads = Some 5\<rparr>,
                                 \<lparr>item_category = JStr '''', item_downloads = Some 9\<rparr>])\<rparr>)]
       = [\<lparr>item_category = JStr ''Linux'', item_downloads = Some 5\<rparr>]
         @ \<lparr>item_category = JStr '''', item_downloads = Some 9\<rparr> # []
   \<and> aggregate system
        [(''pkgA'', \<lparr>recent = None, overall = None, python_versions = None,
            system = Some (Some [\<lparr>item_category = JStr ''Linux'', item_downloads = Some 5\<rparr>,
                                 \<lparr>item_category = JStr '''', item_downloads = Some 9\<rparr>])\<rparr>)]
       = fold add_item ([\<lparr>item_category = JStr ''Linux'', item_downloads = Some 5\<rparr>] @ []) []
   \<and> to_point \<lparr>date = ''2025-01-01'', downloads = Some 2, category = JStr ''''\<rparr>
       \<in> set (dataPoints code_unit_compare
                [\<lparr>date = ''2025-01-01'', downloads = Some 2, category = JStr ''''\<rparr>])"
proof -
  let ?item = "\<lparr>item_category = JStr '''', item_downloads = Some 9\<rparr>"
  let ?xs = "[\<lparr>item_category = JStr ''Linux'', item_downloads = Some 5\<rparr>]"
  let ?pkgs = "[(''pkgA'', \<lparr>recent = None, overall = None, python_versions = None,
            system = Some (Some [\<lparr>item_category = JStr ''Linux'', item_downloads = Some 5\<rparr>, ?item])\<rparr>)]"
  let ?pt = "\<lparr>date = ''2025-01-01'', downloads = Some 2, category = JStr ''''\<rparr>"
  have f: "\<not> truthy (JStr '''')"
    by simp
  have a: "all_items system ?pkgs = ?xs @ ?item # []"
    by (simp add: all_items_def data_or_empty_def facet_data_def)
  from falsy_category [OF f, of ?item system ?pkgs ?xs "[]" ?pt "[?pt]" code_unit_compare] f a
  show ?thesis
    by simp
qed

subsection \<open>The summary cards\<close>

text \<open>
  C5. The six numbers computed for a package are the fields of its \<^verbatim>\<open>recent\<close> data,
  each zero when the field is missing; all six are zero for a package without \<^verbatim>\<open>recent\<close>
  data; and the package of the scenario, with 100 downloads on the last day and 700 in the
  last week, gets 100, 700 and four zeros.
\<close>

theorem recent_window_defaults:
  "(facet_data (recent pkgData) = None \<longrightarrow>
      recentWindow pkgData = \<lparr>lastDay = 0, lastWeek = 0, lastMonth = 0,
         lastDayWithout = 0, lastWeekWithout = 0, lastMonthWithout = 0\<rparr>)
   \<and> (facet_data (recent pkgData) = Some r \<longrightarrow>
      recentWindow pkgData = \<lparr>lastDay = case last_day r of None \<Rightarrow> 0 | Some n \<Rightarrow> n,
         lastWeek = case last_week r of None \<Rightarrow> 0 | Some n \<Rightarrow> n,
         lastMonth = case last_month r of None \<Rightarrow> 0 | Some n \<Rightarrow> n,
         lastDayWithout = case last_day_without_mirrors r of None \<Rightarrow> 0 | Some n \<Rightarrow> n,
         lastWeekWithout = case last_week_without_mirrors r of None \<Rightarrow> 0 | Some n \<Rightarrow> n,
         lastMonthWithout = case last_month_without_mirrors r of None \<Rightarrow> 0 | Some n \<Rightarrow> n\<rparr>)
   \<and> recentWindow \<lparr>recent = Some (Some \<lparr>last_day = Some 100, last_week = Some 700,
          last_month = None, last_day_without_mirrors = None,
          last_week_without_mirrors = None, last_month_without_mirrors = None\<rparr>),
        overall = ov, python_versions = pv, system = sy\<rparr>
      = \<lparr>lastDay = 100, lastWeek = 700, lastMonth = 0,
         lastDayWithout = 0, lastWeekWithout = 0, lastMonthWithout = 0\<rparr>"
  by (auto simp: recentWindow_def recent_or_empty_def facet_data_def or_zero_def Let_def
      split: option.splits)

text \<open>
  A package without the facet, and one with three of the six fields.
\<close>

theorem recent_window_defaults_witness:
  "facet_data (recent \<lparr>recent = None, overall = None, python_versions = None, system = None\<rparr>) = None
   \<and> recentWindow \<lparr>recent = None, overall = None, python_versions = None, system = None\<rparr>
       = \<lparr>lastDay = 0, lastWeek = 0, lastMonth = 0,
          lastDayWithout = 0, lastWeekWithout = 0, lastMonthWithout = 0\<rparr>
   \<and> facet_data (recent \<lparr>recent = Some (Some \<lparr>last_day = Some 3, last_week = None,
          last_month = Some 40, last_day_without_mirrors = Some 1,
          last_week_without_mirrors = None, last_month_without_mirrors = None\<rparr>),
        overall = None, python_versions = None, system = None\<rparr>)
       = Some \<lparr>last_day = Some 3, last_week = None,
          last_month = Some 40, last_day_without_mirrors = Some 1,
          last_week_without_mirrors = None, last_month_without_mirrors = None\<rparr>
   \<and> recentWindow \<lparr>recent = Some (Some \<lparr>last_day = Some 3, last_week = None,
          last_month = Some 40, last_day_without_mirrors = Some 1,
          last_week_without_mirrors = None, last_month_without_mirrors = None\<rparr>),
        overall = None, python_versions = None, system = None\<rparr>
       = \<lparr>lastDay = 3, lastWeek = 0, lastMonth = 40,
          lastDayWithout = 1, lastWeekWithout = 0, lastMonthWithout = 0\<rparr>"
proof -
  let ?p0 = "\<lparr>recent = None, overall = None, python_versions = None, system = None\<rparr>"
  let ?r = "\<lparr>last_day = Some 3, last_week = None,
          last_month = Some 40, last_day_without_mirrors = Some 1,
          last_week_without_mirrors = None, last_month_without_mirrors = None\<rparr>"
  let ?p1 = "\<lparr>recent = Some (Some ?r), overall = None, python_versions = None, system = None\<rparr>"
  have a: "facet_data (recent ?p0) = None"
    by (simp add: facet_data_def)
  have b: "facet_data (recent ?p1) = Some ?r"
    by (simp add: facet_data_def)
  from recent_window_defaults [of ?p0] recent_window_defaults [of ?p1 ?r] a b show ?thesis
    by simp
qed

subsection \<open>formatNumber\<close>

text \<open>
  C9. \<^verbatim>\<open>formatNumber(0)\<close> and \<^verbatim>\<open>formatNumber(undefined)\<close> are both the string
  \<^verbatim>\<open>"0"\<close>, whatever the locale rendering of the host.
\<close>

theorem formatNumber_zero_undefined:
  "formatNumber toLocaleString (JNum 0) = ''0'' \<and> formatNumber toLocaleString JUndefined = ''0''"
  by (simp add: formatNumber_def)

subsection \<open>loadStats\<close>

text \<open>
  C8, as amended. When the response is not a success, when its body does not parse, and
  when the request itself is rejected, the page is left as it was but for the element of the
  summary cards, which holds the one paragraph with the error message: no card and no chart
  is rendered, and the timestamp line is not touched. A document that parses is not checked
  before it is rendered: when a render call throws on its shape, the same paragraph replaces
  the summary cards, while the timestamp line and the charts of the calls before the
  failing one stay on the page.
\<close>

theorem loadStats_failure:
  "loadStats lc tls ft (Response False status b) pg
     = pg\<lparr>summaryCards := ErrorParagraph (''Error loading statistics: HTTP error! status: ''
            @ show_nat status @ ''. Please check the browser console for details.'')\<rparr>
   \<and> loadStats lc tls ft (Response True status (Unparseable message)) pg
     = pg\<lparr>summaryCards := ErrorParagraph (''Error loading statistics: ''
            @ message @ ''. Please check the browser console for details.'')\<rparr>
   \<and> loadStats lc tls ft (Rejected message) pg
     = pg\<lparr>summaryCards := ErrorParagraph (''Error loading statistics: ''
            @ message @ ''. Please check the browser console for details.'')\<rparr>
   \<and> (shape_error doc = Some (CallUpdateLastUpdated, message) \<longrightarrow>
      loadStats lc tls ft (Response True status (Parsed doc)) pg
        = pg\<lparr>summaryCards := ErrorParagraph (''Error loading statistics: ''
               @ message @ ''. Please check the browser console for details.'')\<rparr>)
   \<and> (shape_error doc = Some (CallSummaryCards, message) \<or>
       shape_error doc = Some (CallTrendsChart, message) \<longrightarrow>
      loadStats lc tls ft (Response True status (Parsed doc)) pg
        = pg\<lparr>lastUpdated := Some (''Last updated: '' @ ft (last_updated (content doc))),
             summaryCards := ErrorParagraph (''Error loading statistics: ''
               @ message @ ''. Please check the browser console for details.'')\<rparr>)
   \<and> (shape_error doc = Some (CallPythonVersionsChart, message) \<longrightarrow>
      loadStats lc tls ft (Response True status (Parsed doc)) pg
        = pg\<lparr>lastUpdated := Some (''Last updated: '' @ ft (last_updated (content doc))),
             summaryCards := ErrorParagraph (''Error loading statistics: ''
               @ message @ ''. Please check the browser console for details.''),
             trendsChart := Some (fst (renderTrendsChart lc (packages (content doc))))\<rparr>)
   \<and> (shape_error doc = Some (CallSystemsChart, message) \<longrightarrow>
      loadStats lc tls ft (Response True status (Parsed doc)) pg
        = pg\<lparr>lastUpdated := Some (''Last updated: '' @ ft (last_updated (content doc))),
             summaryCards := ErrorParagraph (''Error loading statistics: ''
               @ message @ ''. Please check the browser console for details.''),
             trendsChart := Some (fst (renderTrendsChart lc (packages (content doc)))),
             pythonVersionsChart := Some (sortedVersions (packages (content doc)))\<rparr>)"
  by (auto simp: loadStats_def show_error_def render_all_def)

text \<open>
  A document on which the last render call throws, on an empty page: the timestamp, the
  trends chart and the interpreter-version chart are there, with the error message.
\<close>

theorem loadStats_failure_witness:
  "shape_error
     \<lparr>content = \<lparr>last_updated = ''2025-01-03'',
          packages = [(''pkgA'', \<lparr>recent = None,
            overall = Some (Some [\<lparr>date = ''2025-01-02'', downloads = Some 5, category = JUndefined\<rparr>]),
            python_versions = None, system = None\<rparr>)]\<rparr>,
      shape_error = Some (CallSystemsChart, ''item is null'')\<rparr>
     = Some (CallSystemsChart, ''item is null'')
   \<and> loadStats code_unit_compare plain_digits id
      (Response True 200 (Parsed
        \<lparr>content = \<lparr>last_updated = ''2025-01-03'',
          packages = [(''pkgA'', \<lparr>recent = None,
            overall = Some (Some [\<lparr>date = ''2025-01-02'', downloads = Some 5, category = JUndefined\<rparr>]),
            python_versions = None, system = None\<rparr>)]\<rparr>,
         shape_error = Some (CallSystemsChart, ''item is null'')\<rparr>))
      \<lparr>lastUpdated = None, summaryCards = NoCards, trendsChart = None,
         pythonVersionsChart = None, systemsChart = None\<rparr>
     = \<lparr>lastUpdated = Some ''Last updated: 2025-01-03'',
        summaryCards = ErrorParagraph
          ''Error loading statistics: item is null. Please check the browser console for details.'',
        trendsChart = Some [\<lparr>label = ''pkgA'', data = [(''2025-01-02'', 5)],
          borderColor = ''#9B0002'', backgroundColor = ''#9B000220''\<rparr>],
        pythonVersionsChart = Some [], systemsChart = None\<rparr>"
proof -
  let ?doc = "\<lparr>content = \<lparr>last_updated = ''2025-01-03'',
          packages = [(''pkgA'', \<lparr>recent = None,
            overall = Some (Some [\<lparr>date = ''2025-01-02'', downloads = Some 5, category = JUndefined\<rparr>]),
            python_versions = None, system = None\<rparr>)]\<rparr>,
      shape_error = Some (CallSystemsChart, ''item is null'')\<rparr>"
  let ?pg = "\<lparr>lastUpdated = None, summaryCards = NoCards, trendsChart = None,
         pythonVersionsChart = None, systemsChart = None\<rparr>"
  have e: "shape_error ?doc = Some (CallSystemsChart, ''item is null'')"
    by simp
  have t: "fst (renderTrendsChart code_unit_compare (packages (content ?doc)))
           = [\<lparr>label = ''pkgA'', data = [(''2025-01-02'', 5)],
               borderColor = ''#9B0002'', backgroundColor = ''#9B000220''\<rparr>]"
    by code_simp
  have v: "sortedVersions (packages (content ?doc)) = []"
    by code_simp
  note last = loadStats_failure [of code_unit_compare plain_digits id 200 "Unparseable []" ?pg
      "''item is null''" ?doc, THEN conjunct2, THEN conjunct2, THEN conjunct2, THEN conjunct2,
      THEN conjunct2, THEN conjunct2]
  from last e t v show ?thesis
    by simp
qed

text \<open>
  The same document: a response that is a success but not of the shape the script reads
  ends with an error message and two of the three charts.
\<close>

theorem partial_render_counterexample:
  "loadStats code_unit_compare plain_digits id
      (Response True 200 (Parsed
        \<lparr>content = \<lparr>last_updated = ''2025-01-03'',
          packages = [(''pkgA'', \<lparr>recent = None,
            overall = Some (Some [\<lparr>date = ''2025-01-02'', downloads = Some 5, category = JUndefined\<rparr>]),
            python_versions = None, system = None\<rparr>)]\<rparr>,
         shape_error = Some (CallSystemsChart, ''item is null'')\<rparr>))
      \<lparr>lastUpdated = None, summaryCards = NoCards, trendsChart = None,
         pythonVersionsChart = None, systemsChart = None\<rparr>
     = \<lparr>lastUpdated = Some ''Last updated: 2025-01-03'',
        summaryCards = ErrorParagraph
          ''Error loading statistics: item is null. Please check the browser console for details.'',
        trendsChart = Some [\<lparr>label = ''pkgA'', data = [(''2025-01-02'', 5)],
          borderColor = ''#9B0002'', backgroundColor = ''#9B000220''\<rparr>],
        pythonVersionsChart = Some [], systemsChart = None\<rparr>"
  by code_simp

end
